theory Spec2Isabelle
  imports Main
begin

section \<open>Strings: the helpers of routes/api.js\<close>

text \<open>
  JavaScript strings are modelled as \<open>string\<close> (byte characters), so the model covers
  ASCII text: \<open>trim\<close> strips the ASCII white space and line terminators, and
  \<open>toLowerCase\<close> maps \<open>A\<close>..\<open>Z\<close> only.
\<close>

text \<open>\<open>s.split(c)\<close> for a one-character separator: never empty, \<open>''''.split(c) = ['''']\<close>.\<close>

fun split :: "char \<Rightarrow> string \<Rightarrow> string list" where
  "split c [] = [[]]"
| "split c (x # xs) =
     (if x = c then [] # split c xs
      else (case split c xs of [] \<Rightarrow> [[x]] | p # ps \<Rightarrow> (x # p) # ps))"

definition isSpace :: "char \<Rightarrow> bool" where
  "isSpace c = (let n = (of_char c :: nat) in (9 \<le> n \<and> n \<le> 13) \<or> n = 32)"

definition trim :: "string \<Rightarrow> string" where
  "trim s = rev (dropWhile isSpace (rev (dropWhile isSpace s)))"

definition lowerChar :: "char \<Rightarrow> char" where
  "lowerChar c =
     (let n = (of_char c :: nat) in if 65 \<le> n \<and> n \<le> 90 then char_of (n + 32) else c)"

definition toLowerCase :: "string \<Rightarrow> string" where
  "toLowerCase s = map lowerChar s"

datatype js_error =
    TypeError
  | Error string
  | ENOENT string string
  | MongoError string
  | StoreUnavailable

text \<open>
  \<open>getExtension\<close> (lines 44-51): the part after the last dot; a name without a dot
  throws \<open>Error('Unknown file type!')\<close>.
\<close>

definition getExtension :: "string \<Rightarrow> js_error + string" where
  "getExtension path =
     (let parts = split (CHR ''.'') path
      in if length parts = 1 then Inl (Error ''Unknown file type!'') else Inr (last parts))"

text \<open>
  \<open>parseMatches\<close> (lines 53-56). The argument is \<open>req.body.matches\<close>, which is
  \<open>undefined\<close> (here \<open>None\<close>) when the field is absent; \<open>undefined.split\<close> throws a
  TypeError.
\<close>

definition parseMatches :: "string option \<Rightarrow> js_error + string list" where
  "parseMatches matchesString =
     (case matchesString of
        None \<Rightarrow> Inl TypeError
      | Some s \<Rightarrow> Inr (map (\<lambda>x. toLowerCase (trim x)) (split (CHR '','') s)))"

section \<open>Documents, the record store and the upload directory\<close>

text \<open>
  The models Category.js and Picture.js are not among the sources; the fields are the ones
  the routes read and write. \<open>doc_id\<close> is the document's \<open>_id\<close>.
\<close>

record document =
  doc_id :: string
  imageUrl :: string
  dateAdded :: int

record category = document +
  title :: "string option"

record picture = document +
  categoryId :: string
  matches :: "string list"

text \<open>multer's \<open>req.file\<close>: the generated name of the staged file and the declared name.\<close>

record upload =
  filename :: string
  originalname :: string

text \<open>
  The state the handlers act on: the two collections, the set of paths that exist on disk,
  and \<open>process.cwd()\<close>.
\<close>

record world =
  categories :: "category list"
  pictures :: "picture list"
  files :: "string set"
  cwd :: string

text \<open>
  What a handler does not control. \<open>newId\<close> is the \<open>_id\<close> that \<open>new Category\<close> or
  \<open>new Picture\<close> generates, \<open>now\<close> is \<open>new Date()\<close>. \<open>queryFails\<close>: the promise of
  the query the handler waits for is rejected. \<open>writeFails\<close>: a \<open>save()\<close> or
  \<open>remove()\<close> whose promise the handler drops does not take effect.
\<close>

record env =
  newId :: string
  now :: int
  queryFails :: bool
  writeFails :: bool

datatype body =
    Pictures "picture list"
  | CategoryDoc category
  | PictureDoc "picture option"
  | Message string
  | ErrorText string
  | ErrorMessage js_error
  | StatusText string

text \<open>
  How a request ends: a response with its status, an exception thrown out of the handler
  (Express answers it), or a rejected promise that nothing handles, in which case no
  response is sent at all.
\<close>

datatype outcome =
    Responded nat body
  | Threw js_error
  | Unhandled js_error

definition handleError :: "js_error \<Rightarrow> outcome" where
  "handleError err = Responded 500 (ErrorMessage err)"

text \<open>
  \<open>path.join\<close>: the non-empty segments joined by a slash, repeated slashes collapsed.
  The resolution of \<open>.\<close> and \<open>..\<close> segments is not modelled.
\<close>

fun collapse :: "string \<Rightarrow> string" where
  "collapse (a # b # s) =
     (if a = CHR ''/'' \<and> b = CHR ''/'' then collapse (b # s) else a # collapse (b # s))"
| "collapse s = s"

definition path_join :: "string list \<Rightarrow> string" where
  "path_join segs =
     collapse (foldr (\<lambda>s acc. if acc = [] then s else s @ ''/'' @ acc)
                 (filter (\<lambda>s. s \<noteq> []) segs) [])"

definition uploadDir :: "world \<Rightarrow> string" where
  "uploadDir w = path_join [cwd w, ''public/uploads/'']"

definition getLocalPath :: "world \<Rightarrow> string \<Rightarrow> string" where
  "getLocalPath w url = path_join [cwd w, ''public'', url]"

text \<open>\<open>fs.unlink\<close> and \<open>fs.rename\<close>: a path that does not exist gives ENOENT.\<close>

definition fsRemove :: "string set \<Rightarrow> string \<Rightarrow> js_error + string set" where
  "fsRemove fs path =
     (if path \<in> fs then Inr (fs - {path}) else Inl (ENOENT ''unlink'' path))"

definition fsRenameLocal :: "string set \<Rightarrow> string \<Rightarrow> string \<Rightarrow> string \<Rightarrow> js_error + string set" where
  "fsRenameLocal fs dir oldFilename newFilename =
     (let old = path_join [dir, oldFilename]; new = path_join [dir, newFilename]
      in if old \<in> fs then Inr (insert new (fs - {old})) else Inl (ENOENT ''rename'' old))"

text \<open>\<open>Model.findById\<close> and the removal of a document by its \<open>_id\<close>.\<close>

definition findById :: "('a document_scheme) list \<Rightarrow> string \<Rightarrow> ('a document_scheme) option" where
  "findById coll i = find (\<lambda>d. doc_id d = i) coll"

definition removeById :: "string \<Rightarrow> ('a document_scheme) list \<Rightarrow> ('a document_scheme) list" where
  "removeById i coll = filter (\<lambda>d. doc_id d \<noteq> i) coll"

section \<open>Sampling: GET /categories/:categoryId/:limit\<close>

text \<open>
  The stages of the two aggregation pipelines. \<open>$sort: {dateAdded: -1}\<close> is a stable
  descending sort here, the same in both pipelines; MongoDB leaves the order of equal
  keys open, so a statement that depends on where the window of 50 ends assumes that the
  matching pictures have pairwise different dates. The random choice of
  \<open>$sample\<close> is a parameter \<open>pick\<close>: given the size and the input documents it
  returns the chosen ones. MongoDB rejects a negative size.
\<close>

type_synonym sampler = "nat \<Rightarrow> picture list \<Rightarrow> picture list"

definition matchCategory :: "string \<Rightarrow> picture list \<Rightarrow> picture list" where
  "matchCategory cid docs = filter (\<lambda>p. categoryId p = cid) docs"

definition sortByDateDesc :: "picture list \<Rightarrow> picture list" where
  "sortByDateDesc docs = sort_key (\<lambda>p. - dateAdded p) docs"

definition sampleStage :: "sampler \<Rightarrow> int \<Rightarrow> picture list \<Rightarrow> js_error + picture list" where
  "sampleStage pick sz docs =
     (if sz < 0 then Inl (MongoError ''size argument to $sample must not be negative'')
      else Inr (pick (nat sz) docs))"

definition matchNotIn :: "string list \<Rightarrow> picture list \<Rightarrow> picture list" where
  "matchNotIn ids docs = filter (\<lambda>p. doc_id p \<notin> set ids) docs"

text \<open>
  The driver builds one new object for each document of a result, so a result is a list
  of objects with pairwise different references. \<open>Array.from(new Set(xs))\<close> keeps the
  first occurrence of each reference, in order.
\<close>

definition materialise :: "'a list \<Rightarrow> (nat \<times> 'a) list" where
  "materialise docs = zip [0..<length docs] docs"

fun uniqueRefs :: "nat list \<Rightarrow> (nat \<times> 'a) list \<Rightarrow> (nat \<times> 'a) list" where
  "uniqueRefs seen [] = []"
| "uniqueRefs seen (x # xs) =
     (if fst x \<in> set seen then uniqueRefs seen xs else x # uniqueRefs (fst x # seen) xs)"

definition arrayFromSet :: "(nat \<times> 'a) list \<Rightarrow> (nat \<times> 'a) list" where
  "arrayFromSet xs = uniqueRefs [] xs"

definition latestItemsLimit :: nat where
  "latestItemsLimit = 50"

text \<open>
  The handler (lines 61-90). \<open>limit\<close> is the parsed route parameter.
  \<open>latestBucketSize\<close> is the value of \<open>getRandomInt(1, limit / 2)\<close>; utils/randomUtils
  is not among the sources, so the drawn value is a parameter. \<open>pick1\<close> and \<open>pick2\<close>
  are the random choices of the two \<open>$sample\<close> stages.
\<close>

definition sample :: "sampler \<Rightarrow> sampler \<Rightarrow> env \<Rightarrow> world \<Rightarrow> string \<Rightarrow> int \<Rightarrow> int \<Rightarrow> outcome" where
  "sample pick1 pick2 e w cid limit latestBucketSize =
     (if queryFails e then handleError StoreUnavailable
      else
        (case sampleStage pick1 latestBucketSize
                (take latestItemsLimit (sortByDateDesc (matchCategory cid (pictures w)))) of
           Inl err \<Rightarrow> handleError err
         | Inr latest \<Rightarrow>
             (let latestSet = arrayFromSet (materialise latest);
                  latestIds = map (\<lambda>x. doc_id (snd x)) latestSet;
                  restItemsCount = limit - int (length latestSet)
              in (case sampleStage pick2 restItemsCount
                        (drop latestItemsLimit (sortByDateDesc (matchCategory cid (pictures w)))) of
                    Inl err \<Rightarrow> handleError err
                  | Inr rest \<Rightarrow>
                      Responded 200 (Pictures (map snd latestSet @ matchNotIn latestIds rest))))))"

section \<open>Creating: POST /categories and POST /pictures\<close>

text \<open>
  \<open>createCategory\<close> (lines 92-115). \<open>getExtension\<close> throws inside the handler itself.
  The source calls \<open>fs.rename\<close> on the two joined paths, which is what
  \<open>fsRenameLocal\<close> does. \<open>category.save()\<close> is not waited for: the response does not
  depend on it.
\<close>

definition createCategory :: "env \<Rightarrow> world \<Rightarrow> upload option \<Rightarrow> string option \<Rightarrow> outcome \<times> world" where
  "createCategory e w reqFile ttl =
     (case reqFile of
        None \<Rightarrow> (Threw TypeError, w)
      | Some file \<Rightarrow>
          (case getExtension (originalname file) of
             Inl err \<Rightarrow> (Threw err, w)
           | Inr ext \<Rightarrow>
               (let targetFilename = filename file @ ''.'' @ toLowerCase ext
                in (case fsRenameLocal (files w) (uploadDir w) (filename file) targetFilename of
                      Inl err \<Rightarrow> (handleError err, w)
                    | Inr fs \<Rightarrow>
                        (let category = \<lparr>doc_id = newId e,
                                         imageUrl = ''/uploads/'' @ targetFilename,
                                         dateAdded = now e, title = ttl\<rparr>
                         in (Responded 200 (CategoryDoc category),
                             w\<lparr>files := fs,
                               categories := (if writeFails e then categories w
                                              else categories w @ [category])\<rparr>))))))"

text \<open>
  \<open>createPicture\<close> (lines 117-151). \<open>parseMatches\<close> runs before the check of the
  fields. \<open>getExtension\<close> is called inside the callback of \<open>findById(...).then\<close>: an
  exception there rejects the promise that \<open>then\<close> returns, which has no handler.
\<close>

definition createPicture :: "env \<Rightarrow> world \<Rightarrow> upload option \<Rightarrow> string option \<Rightarrow> string \<Rightarrow> outcome \<times> world" where
  "createPicture e w reqFile mtch cid =
     (case parseMatches mtch of
        Inl err \<Rightarrow> (Threw err, w)
      | Inr matchArray \<Rightarrow>
          (case reqFile of
             None \<Rightarrow> (Responded 400 (StatusText ''Bad Request''), w)
           | Some file \<Rightarrow>
               if mtch = Some [] then (Responded 400 (StatusText ''Bad Request''), w)
               else if queryFails e then (Responded 500 (ErrorText ''Server error''), w)
               else
                 (case findById (categories w) cid of
                    None \<Rightarrow> (Responded 400 (ErrorText ''Internal error!''), w)
                  | Some category \<Rightarrow>
                      (case getExtension (originalname file) of
                         Inl err \<Rightarrow> (Unhandled err, w)
                       | Inr ext \<Rightarrow>
                           (let targetFilename = filename file @ ''.'' @ toLowerCase ext
                            in (case fsRenameLocal (files w) (uploadDir w) (filename file)
                                       targetFilename of
                                  Inl err \<Rightarrow> (handleError err, w)
                                | Inr fs \<Rightarrow>
                                    (let picture = \<lparr>doc_id = newId e,
                                                    imageUrl = ''/uploads/'' @ targetFilename,
                                                    dateAdded = now e, categoryId = cid,
                                                    matches = matchArray\<rparr>
                                     in (Responded 200 (PictureDoc (Some picture)),
                                         w\<lparr>files := fs,
                                           pictures := (if writeFails e then pictures w
                                                        else pictures w @ [picture])\<rparr>))))))))"

section \<open>Updating: POST /pictures/:id\<close>

text \<open>
  \<open>findByIdAndUpdate\<close>: the listed fields of the document with this \<open>_id\<close> are
  replaced; the answer is the updated document, or \<open>null\<close> when there is none.
\<close>

definition setMatches :: "string \<Rightarrow> string list \<Rightarrow> picture list \<Rightarrow> picture list" where
  "setMatches pid ms coll = map (\<lambda>p. if doc_id p = pid then p\<lparr>matches := ms\<rparr> else p) coll"

definition setMatchesAndUrl :: "string \<Rightarrow> string list \<Rightarrow> string \<Rightarrow> picture list \<Rightarrow> picture list" where
  "setMatchesAndUrl pid ms url coll =
     map (\<lambda>p. if doc_id p = pid then p\<lparr>imageUrl := url, matches := ms\<rparr> else p) coll"

text \<open>
  \<open>updatePicture\<close> (lines 153-186). With a new image the rename and the update are
  started together and neither undoes the other; the first rejection is reported.
\<close>

definition updatePicture :: "env \<Rightarrow> world \<Rightarrow> string \<Rightarrow> upload option \<Rightarrow> string option \<Rightarrow> outcome \<times> world" where
  "updatePicture e w pid reqFile mtch =
     (case parseMatches mtch of
        Inl err \<Rightarrow> (Threw err, w)
      | Inr matchArray \<Rightarrow>
          if mtch = Some [] then (Responded 400 (ErrorText ''Missing field `matches`!''), w)
          else
            (case reqFile of
               None \<Rightarrow>
                 if queryFails e then (Responded 500 (ErrorText ''Update failed!''), w)
                 else
                   (let w' = w\<lparr>pictures := setMatches pid matchArray (pictures w)\<rparr>
                    in (Responded 200 (PictureDoc (findById (pictures w') pid)), w'))
             | Some file \<Rightarrow>
                 (case getExtension (originalname file) of
                    Inl err \<Rightarrow> (Threw err, w)
                  | Inr ext \<Rightarrow>
                      (let targetFilename = filename file @ ''.'' @ toLowerCase ext;
                           renamed = fsRenameLocal (files w) (uploadDir w) (filename file)
                                       targetFilename;
                           w1 = (case renamed of Inl err \<Rightarrow> w | Inr fs \<Rightarrow> w\<lparr>files := fs\<rparr>);
                           w2 = (if queryFails e then w1
                                 else w1\<lparr>pictures := setMatchesAndUrl pid matchArray
                                                        (''/uploads/'' @ targetFilename)
                                                        (pictures w1)\<rparr>)
                       in (case renamed of
                             Inl err \<Rightarrow> (handleError err, w2)
                           | Inr fs \<Rightarrow>
                               if queryFails e then (handleError StoreUnavailable, w2)
                               else (Responded 200 (Message ''Successfully updated!''), w2))))))"

section \<open>Deleting: DELETE /categories/:id and DELETE /pictures/:id\<close>

text \<open>
  The unlinks of a list of paths, one after the other: the paths that were missing are
  collected as errors, the others are removed.
\<close>

fun removeAll_files :: "string list \<Rightarrow> string set \<Rightarrow> js_error list \<times> string set" where
  "removeAll_files [] fs = ([], fs)"
| "removeAll_files (p # ps) fs =
     (case fsRemove fs p of
        Inl err \<Rightarrow> (let (errs, fs') = removeAll_files ps fs in (err # errs, fs'))
      | Inr fs1 \<Rightarrow> removeAll_files ps fs1)"

text \<open>
  \<open>deleteCategory\<close> (lines 188-214). Each picture of the category is removed from the
  collection (\<open>picture.remove()\<close>, not waited for) and its file is unlinked; the same for
  the category when it exists. \<open>Promise.all\<close> answers with the first rejection; the
  branches are taken in the order pictures, category.
\<close>

definition deleteCategory :: "env \<Rightarrow> world \<Rightarrow> string \<Rightarrow> outcome \<times> world" where
  "deleteCategory e w cid =
     (if queryFails e then (handleError StoreUnavailable, w)
      else
        (let found = filter (\<lambda>p. categoryId p = cid) (pictures w);
             pictures' = (if writeFails e then pictures w
                          else foldr (\<lambda>p coll. removeById (doc_id p) coll) found (pictures w));
             (errs1, fs1) = removeAll_files (map (\<lambda>p. getLocalPath w (imageUrl p)) found) (files w);
             category = findById (categories w) cid;
             categories' = (case category of
                              None \<Rightarrow> categories w
                            | Some c \<Rightarrow> if writeFails e then categories w
                                        else removeById (doc_id c) (categories w));
             (errs2, fs2) = (case category of
                               None \<Rightarrow> ([], fs1)
                             | Some c \<Rightarrow> removeAll_files [getLocalPath w (imageUrl c)] fs1);
             w' = w\<lparr>categories := categories', pictures := pictures', files := fs2\<rparr>
         in (case errs1 @ errs2 of
               [] \<Rightarrow> (Responded 200 (Message ''Success!''), w')
             | err # _ \<Rightarrow> (handleError err, w'))))"

text \<open>\<open>deletePicture\<close> (lines 216-225): \<open>findByIdAndRemove\<close> and nothing else.\<close>

definition deletePicture :: "env \<Rightarrow> world \<Rightarrow> string \<Rightarrow> outcome \<times> world" where
  "deletePicture e w pid =
     (if queryFails e then (handleError StoreUnavailable, w)
      else (Responded 200 (Message ''success''), w\<lparr>pictures := removeById pid (pictures w)\<rparr>))"

section \<open>What a sampler may return, and what is stored\<close>

text \<open>
  A \<open>$sample\<close> stage that answers as documented when nothing is written meanwhile:
  documents of its input only, \<open>min size (length input)\<close> of them, and none of them
  twice when the input has none twice.
\<close>

definition exactSampler :: "sampler \<Rightarrow> bool" where
  "exactSampler pick =
     (\<forall>n xs. set (pick n xs) \<subseteq> set xs \<and> length (pick n xs) = min n (length xs) \<and>
             (distinct xs \<longrightarrow> distinct (pick n xs)))"

definition storedMatches :: "world \<Rightarrow> string \<Rightarrow> string list option" where
  "storedMatches w pid = map_option matches (findById (pictures w) pid)"

section \<open>A small installation\<close>

definition cat1 :: category where
  "cat1 = \<lparr>doc_id = ''c1'', imageUrl = ''/uploads/c1.png'', dateAdded = 1,
           title = Some ''Animals''\<rparr>"

definition pic1 :: picture where
  "pic1 = \<lparr>doc_id = ''p1'', imageUrl = ''/uploads/a.png'', dateAdded = 1,
           categoryId = ''c1'', matches = [''cat'']\<rparr>"

definition pic2 :: picture where
  "pic2 = \<lparr>doc_id = ''p2'', imageUrl = ''/uploads/b.png'', dateAdded = 2,
           categoryId = ''c1'', matches = [''dog'']\<rparr>"

definition pic3 :: picture where
  "pic3 = \<lparr>doc_id = ''p3'', imageUrl = ''/uploads/c.png'', dateAdded = 3,
           categoryId = ''c1'', matches = [''fox'']\<rparr>"

definition pic4 :: picture where
  "pic4 = \<lparr>doc_id = ''p4'', imageUrl = ''/uploads/d.png'', dateAdded = 4,
           categoryId = ''c2'', matches = [''oak'']\<rparr>"

definition world0 :: world where
  "world0 = \<lparr>categories = [cat1], pictures = [pic1, pic2, pic3, pic4],
             files = {''/app/public/uploads/c1.png'', ''/app/public/uploads/a.png'',
                      ''/app/public/uploads/b.png'', ''/app/public/uploads/c.png'',
                      ''/app/public/uploads/d.png'', ''/app/public/uploads/tmp1''},
             cwd = ''/app''\<rparr>"

definition env0 :: env where
  "env0 = \<lparr>newId = ''n1'', now = 9, queryFails = False, writeFails = False\<rparr>"

definition envLost :: env where
  "envLost = \<lparr>newId = ''n1'', now = 9, queryFails = False, writeFails = True\<rparr>"

definition upDog :: upload where
  "upDog = \<lparr>filename = ''tmp1'', originalname = ''Dog.PNG''\<rparr>"

definition upBare :: upload where
  "upBare = \<lparr>filename = ''tmp1'', originalname = ''photo''\<rparr>"

text \<open>A \<open>$sample\<close> that answers with one document repeated.\<close>

definition repeatFirst :: sampler where
  "repeatFirst n xs = (case xs of [] \<Rightarrow> [] | x # _ \<Rightarrow> replicate n x)"

section \<open>Facts about the helpers\<close>

lemma split_length: "length (split c s) = Suc (count_list s c)"
  by (induction s) (auto split: list.splits)

lemma split_no_sep: "c \<notin> set s \<Longrightarrow> split c s = [s]"
  by (induction s) auto

lemma getExtension_no_dot:
  "CHR ''.'' \<notin> set path \<Longrightarrow> getExtension path = Inl (Error ''Unknown file type!'')"
  by (simp add: getExtension_def split_no_sep)

lemma findById_setMatches:
  "findById (setMatches pid ms coll) pid = map_option (\<lambda>p. p\<lparr>matches := ms\<rparr>) (findById coll pid)"
  by (induction coll) (auto simp: findById_def setMatches_def)

lemma findById_member:
  "p \<in> set coll \<Longrightarrow> doc_id p = i \<Longrightarrow> findById coll i \<noteq> None"
  by (auto simp: findById_def find_None_iff)

lemma findById_Some: "findById coll i = Some d \<Longrightarrow> d \<in> set coll \<and> doc_id d = i"
  by (auto simp: findById_def find_Some_iff)

lemma findById_None: "findById coll i = None \<Longrightarrow> \<forall>d \<in> set coll. doc_id d \<noteq> i"
  by (auto simp: findById_def find_None_iff)

section \<open>Deleting a picture\<close>

text \<open>
  C9. Deleting a picture removes the picture's record and nothing else: the files on disk,
  among them the file behind the picture's \<open>imageUrl\<close>, and the categories are as
  before, and the pictures left are exactly those with another \<open>_id\<close>.
\<close>

theorem deletePicture_record_only:
  "files (snd (deletePicture e w pid)) = files w \<and>
   categories (snd (deletePicture e w pid)) = categories w \<and>
   (\<not> queryFails e \<longrightarrow>
      pictures (snd (deletePicture e w pid)) = filter (\<lambda>p. doc_id p \<noteq> pid) (pictures w))"
  by (simp add: deletePicture_def removeById_def)

theorem deletePicture_record_only_witness:
  "files (snd (deletePicture env0 world0 ''p1'')) = files world0 \<and>
   categories (snd (deletePicture env0 world0 ''p1'')) = [cat1] \<and>
   \<not> queryFails env0 \<and>
   pictures (snd (deletePicture env0 world0 ''p1'')) = [pic2, pic3, pic4]"
  using deletePicture_record_only [of env0 world0 "''p1''"]
  by (simp add: env0_def world0_def pic1_def pic2_def pic3_def pic4_def)

section \<open>Requests without the field matches\<close>

text \<open>
  C5. A request to create a picture, or to update one without a new image, that has no
  field \<open>matches\<close> should be answered with status 400. In the code \<open>parseMatches\<close>
  runs before the check of the field, so the handler throws a TypeError instead and the
  state is untouched.
\<close>

theorem missing_matches_throws:
  "createPicture e w reqFile None cid = (Threw TypeError, w) \<and>
   updatePicture e w pid None None = (Threw TypeError, w)"
  by (simp add: createPicture_def updatePicture_def parseMatches_def)

section \<open>Updating the matches of a picture\<close>

text \<open>
  C8. Updating an existing picture, without a new image, with the text
  \<open>DOG, Pet ,cat\<close> stores the matches \<open>dog\<close>, \<open>pet\<close>, \<open>cat\<close>. For any non-empty
  text the stored matches are the comma-separated entries, each trimmed and in lower
  case, one entry more than there are commas: empty entries are kept.
\<close>

theorem updatePicture_stores_parsed_matches:
  assumes "\<not> queryFails e" and "p \<in> set (pictures w)" and "doc_id p = pid"
  shows "storedMatches (snd (updatePicture e w pid None (Some ''DOG, Pet ,cat''))) pid
           = Some [''dog'', ''pet'', ''cat''] \<and>
         (\<forall>s. s \<noteq> [] \<longrightarrow>
            storedMatches (snd (updatePicture e w pid None (Some s))) pid
              = Some (map (\<lambda>x. toLowerCase (trim x)) (split (CHR '','') s)) \<and>
            length (the (storedMatches (snd (updatePicture e w pid None (Some s))) pid))
              = Suc (count_list s (CHR '','')))"
proof -
  have pm: "parseMatches (Some ''DOG, Pet ,cat'') = Inr [''dog'', ''pet'', ''cat'']"
    by code_simp
  from assms(2,3) obtain q where q: "findById (pictures w) pid = Some q"
    using findById_member by fastforce
  have gen: "storedMatches (snd (updatePicture e w pid None (Some s))) pid = Some ms"
    if "s \<noteq> []" and "parseMatches (Some s) = Inr ms" for s ms
    using that assms(1) q
    by (simp add: updatePicture_def storedMatches_def findById_setMatches)
  have a: "storedMatches (snd (updatePicture e w pid None (Some ''DOG, Pet ,cat''))) pid
           = Some [''dog'', ''pet'', ''cat'']"
    by (rule gen[OF _ pm]) simp
  have b: "storedMatches (snd (updatePicture e w pid None (Some s))) pid
              = Some (map (\<lambda>x. toLowerCase (trim x)) (split (CHR '','') s))" if "s \<noteq> []" for s
    by (rule gen[OF that]) (simp add: parseMatches_def)
  show ?thesis using a b by (simp add: split_length)
qed

theorem updatePicture_stores_parsed_matches_witness:
  "\<not> queryFails env0 \<and> pic1 \<in> set (pictures world0) \<and> doc_id pic1 = ''p1'' \<and>
   storedMatches (snd (updatePicture env0 world0 ''p1'' None (Some ''DOG, Pet ,cat''))) ''p1''
     = Some [''dog'', ''pet'', ''cat''] \<and>
   storedMatches (snd (updatePicture env0 world0 ''p1'' None (Some ''dog,''))) ''p1''
     = Some [''dog'', '''']"
proof -
  have h1: "\<not> queryFails env0" by (simp add: env0_def)
  have h2: "pic1 \<in> set (pictures world0)" by (simp add: world0_def)
  have h3: "doc_id pic1 = ''p1''" by (simp add: pic1_def)
  have t: "map (\<lambda>x. toLowerCase (trim x)) (split (CHR '','') ''dog,'') = [''dog'', '''']"
    by code_simp
  from updatePicture_stores_parsed_matches [OF h1 h2 h3]
  have "storedMatches (snd (updatePicture env0 world0 ''p1'' None (Some ''DOG, Pet ,cat''))) ''p1''
     = Some [''dog'', ''pet'', ''cat'']"
    and "storedMatches (snd (updatePicture env0 world0 ''p1'' None (Some ''dog,''))) ''p1''
     = Some (map (\<lambda>x. toLowerCase (trim x)) (split (CHR '','') ''dog,''))"
    by simp_all
  with h1 h2 h3 t show ?thesis by simp
qed

section \<open>Creating a picture in a category that does not exist\<close>

text \<open>
  C3. When the category id of a request to create a picture resolves to no category, the
  request changes nothing: the files on disk and both collections are as before, so the
  staged upload is not renamed. Unless the field \<open>matches\<close> is absent the answer has
  status 400, and for a request with an image and non-empty matches it is the error of
  the category check.
\<close>

theorem createPicture_unknown_category:
  assumes "findById (categories w) cid = None"
  shows "snd (createPicture e w reqFile mtch cid) = w \<and>
         (\<not> queryFails e \<and> mtch \<noteq> None \<longrightarrow>
            (\<exists>b. fst (createPicture e w reqFile mtch cid) = Responded 400 b)) \<and>
         (\<forall>f m. \<not> queryFails e \<and> reqFile = Some f \<and> mtch = Some m \<and> m \<noteq> [] \<longrightarrow>
            fst (createPicture e w reqFile mtch cid)
              = Responded 400 (ErrorText ''Internal error!''))"
  using assms
  by (auto simp: createPicture_def parseMatches_def split: option.splits sum.splits)

theorem createPicture_unknown_category_witness:
  "findById (categories world0) ''zz'' = None \<and>
   createPicture env0 world0 (Some upDog) (Some ''cat,dog'') ''zz''
     = (Responded 400 (ErrorText ''Internal error!''), world0)"
proof -
  have h: "findById (categories world0) ''zz'' = None"
    by (simp add: findById_def world0_def cat1_def)
  have q: "\<not> queryFails env0" by (simp add: env0_def)
  from createPicture_unknown_category [OF h, of env0 "Some upDog" "Some ''cat,dog''"] q
  have "snd (createPicture env0 world0 (Some upDog) (Some ''cat,dog'') ''zz'') = world0"
    and "fst (createPicture env0 world0 (Some upDog) (Some ''cat,dog'') ''zz'')
           = Responded 400 (ErrorText ''Internal error!'')"
    by simp_all
  with h show ?thesis by (simp add: prod_eq_iff)
qed

section \<open>The insert behind a create is not waited for\<close>

text \<open>
  C10. In creating a category or a picture the response is sent without waiting for the
  insert. When the insert fails after the staged file was renamed, the caller still gets
  the success response with the new document, the same one as when the insert works,
  while the collection is unchanged and the renamed file is on disk.
\<close>

theorem create_response_ignores_insert:
  assumes "getExtension (originalname f) = Inr ext"
    and "path_join [uploadDir w, filename f] \<in> files w"
    and "writeFails e"
  shows "(\<exists>c. fst (createCategory e w (Some f) ttl) = Responded 200 (CategoryDoc c) \<and>
              fst (createCategory (e\<lparr>writeFails := False\<rparr>) w (Some f) ttl)
                = Responded 200 (CategoryDoc c)) \<and>
         categories (snd (createCategory e w (Some f) ttl)) = categories w \<and>
         path_join [uploadDir w, filename f @ ''.'' @ toLowerCase ext]
           \<in> files (snd (createCategory e w (Some f) ttl)) \<and>
         (\<not> queryFails e \<and> m \<noteq> [] \<and> findById (categories w) cid \<noteq> None \<longrightarrow>
            (\<exists>p. fst (createPicture e w (Some f) (Some m) cid)
                    = Responded 200 (PictureDoc (Some p)) \<and>
                  fst (createPicture (e\<lparr>writeFails := False\<rparr>) w (Some f) (Some m) cid)
                    = Responded 200 (PictureDoc (Some p))) \<and>
            pictures (snd (createPicture e w (Some f) (Some m) cid)) = pictures w \<and>
            path_join [uploadDir w, filename f @ ''.'' @ toLowerCase ext]
              \<in> files (snd (createPicture e w (Some f) (Some m) cid)))"
  using assms
  by (auto simp: createCategory_def createPicture_def parseMatches_def fsRenameLocal_def Let_def
           split: option.splits sum.splits)

theorem create_response_ignores_insert_witness:
  "getExtension (originalname upDog) = Inr ''PNG'' \<and>
   path_join [uploadDir world0, filename upDog] \<in> files world0 \<and>
   writeFails envLost \<and>
   fst (createCategory envLost world0 (Some upDog) (Some ''Birds''))
     = Responded 200 (CategoryDoc \<lparr>doc_id = ''n1'', imageUrl = ''/uploads/tmp1.png'',
                                    dateAdded = 9, title = Some ''Birds''\<rparr>) \<and>
   categories (snd (createCategory envLost world0 (Some upDog) (Some ''Birds'')))
     = categories world0 \<and>
   fst (createPicture envLost world0 (Some upDog) (Some ''owl'') ''c1'')
     = Responded 200 (PictureDoc (Some \<lparr>doc_id = ''n1'', imageUrl = ''/uploads/tmp1.png'',
                                         dateAdded = 9, categoryId = ''c1'',
                                         matches = [''owl'']\<rparr>)) \<and>
   pictures (snd (createPicture envLost world0 (Some upDog) (Some ''owl'') ''c1''))
     = pictures world0"
proof -
  have h1: "getExtension (originalname upDog) = Inr ''PNG''"
    by (simp add: upDog_def getExtension_def)
  have h2: "path_join [uploadDir world0, filename upDog] \<in> files world0"
    by (simp add: upDog_def world0_def uploadDir_def path_join_def)
  have h3: "writeFails envLost" by (simp add: envLost_def)
  have h4: "\<not> queryFails envLost \<and> ''owl'' \<noteq> [] \<and> findById (categories world0) ''c1'' \<noteq> None"
    by (simp add: envLost_def findById_def world0_def cat1_def)
  have pm: "parseMatches (Some ''owl'') = Inr [''owl'']"
    by code_simp
  have lc: "toLowerCase ''PNG'' = ''png''"
    by code_simp
  have r1: "fst (createCategory envLost world0 (Some upDog) (Some ''Birds''))
     = Responded 200 (CategoryDoc \<lparr>doc_id = ''n1'', imageUrl = ''/uploads/tmp1.png'',
                                    dateAdded = 9, title = Some ''Birds''\<rparr>)"
    using h1 h2 lc
    by (simp add: createCategory_def fsRenameLocal_def Let_def)
       (simp add: envLost_def upDog_def)
  have r2: "fst (createPicture envLost world0 (Some upDog) (Some ''owl'') ''c1'')
     = Responded 200 (PictureDoc (Some \<lparr>doc_id = ''n1'', imageUrl = ''/uploads/tmp1.png'',
                                         dateAdded = 9, categoryId = ''c1'',
                                         matches = [''owl'']\<rparr>))"
    using h1 h2 h4 lc pm
    by (auto simp: createPicture_def fsRenameLocal_def Let_def split: option.splits)
       (simp_all add: envLost_def upDog_def)
  from create_response_ignores_insert [OF h1 h2 h3, of "Some ''Birds''" "''owl''" "''c1''"] h4
  have "categories (snd (createCategory envLost world0 (Some upDog) (Some ''Birds'')))
          = categories world0"
    and "pictures (snd (createPicture envLost world0 (Some upDog) (Some ''owl'') ''c1''))
          = pictures world0"
    by blast+
  with h1 h2 h3 r1 r2 show ?thesis by simp
qed

section \<open>Uploads whose declared name has no extension\<close>

text \<open>
  C6. When the declared name of the upload has no dot, creating a category throws the
  error \<open>Unknown file type!\<close> out of the handler, and nothing is inserted. Creating a
  picture inserts nothing either, but there the error is thrown inside a promise callback
  and nothing handles the rejection: the caller gets no response.
\<close>

theorem missing_extension_outcome:
  assumes "CHR ''.'' \<notin> set (originalname f)"
  shows "createCategory e w (Some f) ttl = (Threw (Error ''Unknown file type!''), w) \<and>
         (\<not> queryFails e \<and> m \<noteq> [] \<and> findById (categories w) cid \<noteq> None \<longrightarrow>
            createPicture e w (Some f) (Some m) cid
              = (Unhandled (Error ''Unknown file type!''), w))"
  using assms
  by (auto simp: createCategory_def createPicture_def parseMatches_def getExtension_no_dot
           split: option.splits)

theorem missing_extension_outcome_witness:
  "CHR ''.'' \<notin> set (originalname upBare) \<and>
   createCategory env0 world0 (Some upBare) (Some ''Birds'')
     = (Threw (Error ''Unknown file type!''), world0) \<and>
   createPicture env0 world0 (Some upBare) (Some ''owl'') ''c1''
     = (Unhandled (Error ''Unknown file type!''), world0)"
proof -
  have h: "CHR ''.'' \<notin> set (originalname upBare)" by (simp add: upBare_def)
  have g: "\<not> queryFails env0 \<and> ''owl'' \<noteq> [] \<and> findById (categories world0) ''c1'' \<noteq> None"
    by (simp add: env0_def findById_def world0_def cat1_def)
  from missing_extension_outcome [OF h, of env0 world0 "Some ''Birds''" "''owl''" "''c1''"] g h
  show ?thesis by blast
qed

section \<open>Deleting a category\<close>

lemma removeAll_files_snd: "snd (removeAll_files ps fs) = fs - set ps"
proof (induction ps arbitrary: fs)
  case Nil
  show ?case by simp
next
  case (Cons p ps)
  show ?case
  proof (cases "p \<in> fs")
    case True
    then show ?thesis using Cons.IH [of "fs - {p}"] by (auto simp: fsRemove_def)
  next
    case False
    obtain errs fs' where r: "removeAll_files ps fs = (errs, fs')"
      by (cases "removeAll_files ps fs")
    with Cons.IH [of fs] have "fs' = fs - set ps" by simp
    with False r show ?thesis by (auto simp: fsRemove_def)
  qed
qed

lemma foldr_removeById:
  "foldr (\<lambda>p coll. removeById (doc_id p) coll) found coll
     = filter (\<lambda>q. doc_id q \<notin> doc_id ` set found) coll"
  by (induction found) (auto simp: removeById_def intro: filter_cong)

lemma deleteCategory_world:
  "\<not> queryFails e \<Longrightarrow>
   snd (deleteCategory e w cid) =
     w\<lparr>categories := (case findById (categories w) cid of
                        None \<Rightarrow> categories w
                      | Some c \<Rightarrow> if writeFails e then categories w
                                  else removeById (doc_id c) (categories w)),
       pictures := (if writeFails e then pictures w
                    else filter (\<lambda>q. doc_id q \<notin> doc_id ` {p \<in> set (pictures w). categoryId p = cid})
                           (pictures w)),
       files := files w - (\<lambda>p. getLocalPath w (imageUrl p)) ` {p \<in> set (pictures w). categoryId p = cid}
                        - (case findById (categories w) cid of
                             None \<Rightarrow> {} | Some c \<Rightarrow> {getLocalPath w (imageUrl c)})\<rparr>"
proof -
  assume q: "\<not> queryFails e"
  let ?found = "filter (\<lambda>p. categoryId p = cid) (pictures w)"
  let ?paths = "map (\<lambda>p. getLocalPath w (imageUrl p)) ?found"
  obtain errs1 fs1 where r1: "removeAll_files ?paths (files w) = (errs1, fs1)"
    by (cases "removeAll_files ?paths (files w)")
  have fs1: "fs1 = files w - set ?paths"
    using removeAll_files_snd [of ?paths "files w"] r1 by simp
  show ?thesis
  proof (cases "findById (categories w) cid")
    case None
    then show ?thesis using q r1 fs1
      by (simp add: deleteCategory_def foldr_removeById Let_def split: list.split)
  next
    case (Some c)
    obtain errs2 fs2 where r2: "removeAll_files [getLocalPath w (imageUrl c)] fs1 = (errs2, fs2)"
      by (cases "removeAll_files [getLocalPath w (imageUrl c)] fs1")
    have fs2: "fs2 = fs1 - {getLocalPath w (imageUrl c)}"
      using removeAll_files_snd [of "[getLocalPath w (imageUrl c)]" fs1] r2 by simp
    show ?thesis using q r1 fs1 Some r2 fs2
      by (simp add: deleteCategory_def foldr_removeById Let_def del: removeAll_files.simps
            split: list.split)
  qed
qed

text \<open>
  C1. When the store answers and its removals take effect, deleting a category leaves no
  category with this id and no picture that refers to it, and the file of the category
  and the file of every picture that referred to it are gone from the disk.
\<close>

theorem deleteCategory_cascade:
  assumes "\<not> queryFails e" and "\<not> writeFails e"
  shows "(\<forall>c \<in> set (categories (snd (deleteCategory e w cid))). doc_id c \<noteq> cid) \<and>
         (\<forall>c. findById (categories w) cid = Some c \<longrightarrow>
               getLocalPath w (imageUrl c) \<notin> files (snd (deleteCategory e w cid))) \<and>
         (\<forall>p \<in> set (pictures (snd (deleteCategory e w cid))). categoryId p \<noteq> cid) \<and>
         (\<forall>p \<in> set (pictures w). categoryId p = cid \<longrightarrow>
               getLocalPath w (imageUrl p) \<notin> files (snd (deleteCategory e w cid)))"
proof -
  note W = deleteCategory_world [OF assms(1), of w cid]
  have c1: "\<forall>c \<in> set (categories (snd (deleteCategory e w cid))). doc_id c \<noteq> cid"
  proof (cases "findById (categories w) cid")
    case None
    then show ?thesis using W findById_None [OF None] by simp
  next
    case (Some c)
    then show ?thesis using W assms(2) findById_Some [OF Some] by (simp add: removeById_def)
  qed
  have c2: "\<forall>c. findById (categories w) cid = Some c \<longrightarrow>
               getLocalPath w (imageUrl c) \<notin> files (snd (deleteCategory e w cid))"
    using W by auto
  have c3: "\<forall>p \<in> set (pictures (snd (deleteCategory e w cid))). categoryId p \<noteq> cid"
    using W assms(2) by auto
  have c4: "\<forall>p \<in> set (pictures w). categoryId p = cid \<longrightarrow>
               getLocalPath w (imageUrl p) \<notin> files (snd (deleteCategory e w cid))"
    using W by auto
  from c1 c2 c3 c4 show ?thesis by blast
qed

theorem deleteCategory_cascade_witness:
  "\<not> queryFails env0 \<and> \<not> writeFails env0 \<and>
   categories (snd (deleteCategory env0 world0 ''c1'')) = [] \<and>
   pictures (snd (deleteCategory env0 world0 ''c1'')) = [pic4] \<and>
   files (snd (deleteCategory env0 world0 ''c1''))
     = {''/app/public/uploads/d.png'', ''/app/public/uploads/tmp1''} \<and>
   getLocalPath world0 (imageUrl pic1) \<notin> files (snd (deleteCategory env0 world0 ''c1''))"
proof -
  have h1: "\<not> queryFails env0" and h2: "\<not> writeFails env0" by (simp_all add: env0_def)
  have w: "snd (deleteCategory env0 world0 ''c1'')
     = \<lparr>categories = [], pictures = [pic4],
        files = {''/app/public/uploads/d.png'', ''/app/public/uploads/tmp1''}, cwd = ''/app''\<rparr>"
    by (simp add: deleteCategory_def env0_def world0_def cat1_def pic1_def pic2_def pic3_def
          pic4_def findById_def removeById_def getLocalPath_def path_join_def fsRemove_def
          insert_Diff_if)
  have m: "pic1 \<in> set (pictures world0)" "categoryId pic1 = ''c1''"
    by (simp_all add: world0_def pic1_def)
  from deleteCategory_cascade [OF h1 h2, of world0 "''c1''"] m
  have "getLocalPath world0 (imageUrl pic1) \<notin> files (snd (deleteCategory env0 world0 ''c1''))"
    by blast
  with h1 h2 w show ?thesis by simp
qed

section \<open>Sampling\<close>

text \<open>
  The objects of a query result have pairwise different references, so
  \<open>Array.from(new Set(latest))\<close> is \<open>latest\<close> itself.
\<close>

lemma uniqueRefs_distinct:
  "distinct (map fst xs) \<Longrightarrow> set (map fst xs) \<inter> set seen = {} \<Longrightarrow> uniqueRefs seen xs = xs"
  by (induction xs arbitrary: seen) auto

lemma arrayFromSet_materialise: "arrayFromSet (materialise docs) = materialise docs"
  by (simp add: arrayFromSet_def materialise_def uniqueRefs_distinct)

lemma snd_materialise: "map snd (materialise docs) = docs"
  by (simp add: materialise_def)

lemma length_materialise: "length (materialise docs) = length docs"
  by (simp add: materialise_def)

lemma ids_materialise: "map (\<lambda>x. doc_id (snd x)) (materialise docs) = map doc_id docs"
proof -
  have "map (\<lambda>x. doc_id (snd x)) (materialise docs) = map doc_id (map snd (materialise docs))"
    by simp
  then show ?thesis by (simp only: snd_materialise)
qed

lemma sample_unfold:
  assumes "\<not> queryFails e"
  shows "sample pick1 pick2 e w cid limit b =
     (let sorted = sortByDateDesc (matchCategory cid (pictures w));
          latest = pick1 (nat b) (take latestItemsLimit sorted)
      in if b < 0 \<or> limit < int (length latest)
         then handleError (MongoError ''size argument to $sample must not be negative'')
         else Responded 200 (Pictures (latest @ matchNotIn (map doc_id latest)
                 (pick2 (nat (limit - int (length latest))) (drop latestItemsLimit sorted)))))"
  using assms
  by (simp add: sample_def sampleStage_def Let_def arrayFromSet_materialise snd_materialise
        length_materialise ids_materialise)

text \<open>
  C7, as the claim states it, fails: for the count -2 the second \<open>$sample\<close> stage gets
  a negative size and the request is answered with status 500, whatever is stored.
\<close>

theorem sample_negative_count_counterexample:
  "sample take take env0 world0 ''c1'' (- 2) 1
     = Responded 500 (ErrorMessage (MongoError ''size argument to $sample must not be negative'')) \<and>
   sample take take env0 world0 ''c1'' (- 2) 1 \<noteq> Responded 200 (Pictures [])"
  by (simp add: sample_def sampleStage_def env0_def handleError_def world0_def Let_def
        arrayFromSet_def materialise_def latestItemsLimit_def)

text \<open>
  C7, amended. For a negative count the request is answered with status 500, for every
  category, bucket size and random choice. For the count 0 and a bucket size that is not
  negative the answer is the empty list when the fresh draw is empty, and status 500
  otherwise.
\<close>

theorem sample_nonpositive_count:
  "(limit < 0 \<longrightarrow> (\<exists>err. sample pick1 pick2 e w cid limit b = Responded 500 (ErrorMessage err))) \<and>
   (limit = 0 \<and> \<not> queryFails e \<and> 0 \<le> b \<and> (\<forall>xs. pick2 0 xs = []) \<longrightarrow>
      (if pick1 (nat b) (take latestItemsLimit (sortByDateDesc (matchCategory cid (pictures w)))) = []
       then sample pick1 pick2 e w cid limit b = Responded 200 (Pictures [])
       else (\<exists>err. sample pick1 pick2 e w cid limit b = Responded 500 (ErrorMessage err))))"
proof (cases "queryFails e")
  case True
  then show ?thesis by (simp add: sample_def handleError_def)
next
  case False
  show ?thesis
    by (auto simp: sample_unfold [OF False] Let_def handleError_def matchNotIn_def)
qed

theorem sample_nonpositive_count_witness:
  "sample take take env0 world0 ''c1'' (- 1) 1
     = Responded 500 (ErrorMessage (MongoError ''size argument to $sample must not be negative'')) \<and>
   \<not> queryFails env0 \<and>
   take (nat 1) (take latestItemsLimit (sortByDateDesc (matchCategory ''zz'' (pictures world0)))) = [] \<and>
   sample take take env0 world0 ''zz'' 0 1 = Responded 200 (Pictures []) \<and>
   take (nat 1) (take latestItemsLimit (sortByDateDesc (matchCategory ''c1'' (pictures world0)))) \<noteq> [] \<and>
   sample take take env0 world0 ''c1'' 0 1
     = Responded 500 (ErrorMessage (MongoError ''size argument to $sample must not be negative''))"
proof -
  have q: "\<not> queryFails env0" by (simp add: env0_def)
  have t: "\<forall>xs :: picture list. take 0 xs = []" by simp
  have z: "take (nat 1) (take latestItemsLimit (sortByDateDesc (matchCategory ''zz'' (pictures world0)))) = []"
    by (simp add: matchCategory_def world0_def pic1_def pic2_def pic3_def pic4_def sortByDateDesc_def)
  have c: "take (nat 1) (take latestItemsLimit (sortByDateDesc (matchCategory ''c1'' (pictures world0)))) \<noteq> []"
    by (simp add: matchCategory_def world0_def pic1_def pic2_def pic3_def pic4_def sortByDateDesc_def
          latestItemsLimit_def)
  have u: "sample take take env0 world0 cid limit 1
             = Responded 500 (ErrorMessage (MongoError ''size argument to $sample must not be negative''))"
    if "\<exists>err. sample take take env0 world0 cid limit 1 = Responded 500 (ErrorMessage err)"
    for cid limit
    using that by (auto simp: sample_unfold [OF q] Let_def handleError_def split: if_splits)
  have a: "\<exists>err. sample take take env0 world0 ''c1'' (- 1) 1 = Responded 500 (ErrorMessage err)"
    using sample_nonpositive_count [where limit = "- 1" and ?pick1.0 = take and ?pick2.0 = take
            and e = env0 and w = world0 and cid = "''c1''" and b = 1] by simp
  have b1: "sample take take env0 world0 ''zz'' 0 1 = Responded 200 (Pictures [])"
    using sample_nonpositive_count [where limit = 0 and ?pick1.0 = take and ?pick2.0 = take
            and e = env0 and w = world0 and cid = "''zz''" and b = 1] q t z by simp
  have b2: "\<exists>err. sample take take env0 world0 ''c1'' 0 1 = Responded 500 (ErrorMessage err)"
    using sample_nonpositive_count [where limit = 0 and ?pick1.0 = take and ?pick2.0 = take
            and e = env0 and w = world0 and cid = "''c1''" and b = 1] q t c by simp
  from u [OF a] q z b1 c u [OF b2] show ?thesis by blast
qed

section \<open>Sampling from a small population\<close>

lemma distinct_ids_sorted:
  assumes "distinct (map doc_id docs)"
  shows "distinct (map doc_id (sortByDateDesc (matchCategory cid docs)))"
proof -
  have "distinct (map doc_id (filter (\<lambda>p. categoryId p = cid) docs))"
    using assms by (rule distinct_map_filter)
  then show ?thesis
    by (simp add: sortByDateDesc_def matchCategory_def distinct_map)
qed

lemma ids_take_drop_disjoint:
  assumes "distinct (map doc_id xs)" and "a \<in> set (take k xs)" and "b \<in> set (drop k xs)"
  shows "doc_id b \<noteq> doc_id a"
proof -
  have "set (take k (map doc_id xs)) \<inter> set (drop k (map doc_id xs)) = {}"
    using assms(1) by (simp add: set_take_disj_set_drop_if_distinct)
  moreover have "doc_id a \<in> set (take k (map doc_id xs))"
    using assms(2) by (simp add: take_map)
  moreover have "doc_id b \<in> set (drop k (map doc_id xs))"
    using assms(3) by (simp add: drop_map)
  ultimately show ?thesis by auto
qed

lemma exactSampler_take: "exactSampler take"
  by (auto simp: exactSampler_def dest: in_set_takeD)

text \<open>
  C4, as the claim states it, fails: with three pictures in the category, the count 4 and
  the bucket size 2, the answer has two pictures. The backfill query skips the first 50
  matching pictures, so nothing is left for it.
\<close>

theorem sample_small_population_counterexample:
  "length (matchCategory ''c1'' (pictures world0)) < 4 \<and>
   pic1 \<in> set (matchCategory ''c1'' (pictures world0)) \<and>
   sample take take env0 world0 ''c1'' 4 2 = Responded 200 (Pictures [pic3, pic2]) \<and>
   pic1 \<notin> set [pic3, pic2]"
  by (simp add: sample_def sampleStage_def env0_def world0_def Let_def arrayFromSet_def
        materialise_def latestItemsLimit_def matchCategory_def sortByDateDesc_def matchNotIn_def
        pic1_def pic2_def pic3_def pic4_def upt_rec)

text \<open>
  With pairwise different dates there is one descending order only, so the two queries
  cannot split the population differently.
\<close>

lemma sortByDateDesc_unique:
  assumes "distinct (map dateAdded docs)"
    and "set ys = set docs" and "length ys = length docs"
    and "sorted (map (\<lambda>p. - dateAdded p) ys)"
  shows "ys = sortByDateDesc docs"
proof -
  let ?k = "\<lambda>p :: picture. - dateAdded p"
  let ?S = "sort_key ?k docs"
  from assms(1) have dd: "distinct docs" and injd: "inj_on dateAdded (set docs)"
    by (simp_all add: distinct_map)
  from injd have inj: "inj_on ?k (set docs)"
    by (auto simp: inj_on_def)
  have "card (set ys) = length ys"
    using assms(2,3) dd by (simp add: distinct_card)
  then have dy: "distinct ys" by (rule card_distinct)
  have "map ?k ys = map ?k ?S"
  proof (rule sorted_distinct_set_unique)
    show "sorted (map ?k ys)" by (rule assms(4))
    show "distinct (map ?k ys)" using dy inj assms(2) by (simp add: distinct_map)
    show "sorted (map ?k ?S)" by simp
    show "distinct (map ?k ?S)" using dd inj by (simp add: distinct_map)
    show "set (map ?k ys) = set (map ?k ?S)" using assms(2) by simp
  qed
  moreover have "inj_on ?k (set ys \<union> set ?S)" using inj assms(2) by simp
  ultimately have "ys = ?S" by (simp add: inj_on_map_eq_map)
  then show ?thesis by (simp add: sortByDateDesc_def)
qed

lemma distinct_same_length_subset:
  assumes "distinct xs" and "distinct ys" and "set xs \<subseteq> set ys" and "length xs = length ys"
  shows "set xs = set ys"
proof (rule card_subset_eq)
  show "finite (set ys)" by simp
  show "set xs \<subseteq> set ys" by (rule assms(3))
  show "card (set xs) = card (set ys)"
    using assms(1,2,4) by (simp add: distinct_card)
qed

text \<open>
  C4, amended. Let the matching population have \<open>n\<close> pictures, fewer than the count,
  with pairwise different ids and pairwise different dates, let the bucket size \<open>b\<close>
  be at least 0, and let both \<open>$sample\<close> stages answer as documented, without
  repeating a document. Then the request does not fail. The batch is a fresh draw of
  \<open>min b (min 50 n)\<close> pictures among the 50 most recent ones, followed by every picture
  beyond the 50 most recent ones, with no id twice. It is the entire population exactly
  when \<open>min 50 n \<le> b\<close>. The descending order of the population is the only one there
  is.
\<close>

theorem sample_small_population:
  assumes "exactSampler pick1" and "exactSampler pick2"
    and "\<not> queryFails e"
    and "distinct (map doc_id (pictures w))"
    and "distinct (map dateAdded (matchCategory cid (pictures w)))"
    and "0 \<le> b"
    and "int (length (matchCategory cid (pictures w))) < limit"
  shows "\<exists>fresh rest.
           sample pick1 pick2 e w cid limit b = Responded 200 (Pictures (fresh @ rest)) \<and>
           set fresh \<subseteq> set (take latestItemsLimit (sortByDateDesc (matchCategory cid (pictures w)))) \<and>
           length fresh
             = min (nat b) (min latestItemsLimit (length (matchCategory cid (pictures w)))) \<and>
           set rest = set (drop latestItemsLimit (sortByDateDesc (matchCategory cid (pictures w)))) \<and>
           distinct (map doc_id (fresh @ rest)) \<and>
           (set (fresh @ rest) = set (matchCategory cid (pictures w)))
             = (min latestItemsLimit (length (matchCategory cid (pictures w))) \<le> nat b) \<and>
           (\<forall>ys. set ys = set (matchCategory cid (pictures w)) \<and>
                 length ys = length (matchCategory cid (pictures w)) \<and>
                 sorted (map (\<lambda>p. - dateAdded p) ys) \<longrightarrow>
                 ys = sortByDateDesc (matchCategory cid (pictures w)))"
proof -
  let ?pop = "matchCategory cid (pictures w)"
  let ?S = "sortByDateDesc ?pop"
  let ?n = "length ?pop"
  let ?T = "take latestItemsLimit ?S"
  let ?D = "drop latestItemsLimit ?S"
  let ?latest = "pick1 (nat b) ?T"
  let ?restCount = "nat (limit - int (length ?latest))"
  let ?rest = "pick2 ?restCount ?D"
  have lenS: "length ?S = ?n" and setS: "set ?S = set ?pop"
    by (simp_all add: sortByDateDesc_def)
  have dS: "distinct (map doc_id ?S)"
    using assms(4) by (rule distinct_ids_sorted)
  then have dS': "distinct ?S" and inj: "inj_on doc_id (set ?S)"
    by (simp_all add: distinct_map)
  have dpop: "distinct ?pop"
    using dS' by (simp add: sortByDateDesc_def)
  have l1: "length ?latest = min (nat b) (min latestItemsLimit ?n)"
    and s1: "set ?latest \<subseteq> set ?T"
    and d1: "distinct ?latest"
    using assms(1) lenS dS' by (simp_all add: exactSampler_def min.commute)
  have l2: "length ?rest = min ?restCount (?n - latestItemsLimit)"
    and s2: "set ?rest \<subseteq> set ?D"
    and d2: "distinct ?rest"
    using assms(2) lenS dS' by (simp_all add: exactSampler_def)
  have le: "int (length ?latest) \<le> limit"
    using l1 assms(7) by linarith
  have enough: "?n - latestItemsLimit \<le> ?restCount"
    using l1 assms(7) by linarith
  have l2': "length ?rest = length ?D"
    using l2 enough lenS by simp
  have all: "set ?rest = set ?D"
    using d2 _ s2 l2' by (rule distinct_same_length_subset) (simp add: dS')
  have keep: "matchNotIn (map doc_id ?latest) ?rest = ?rest"
    unfolding matchNotIn_def
  proof (rule filter_True, rule ballI)
    fix p assume p: "p \<in> set ?rest"
    show "doc_id p \<notin> set (map doc_id ?latest)"
    proof
      assume "doc_id p \<in> set (map doc_id ?latest)"
      then obtain a where a: "a \<in> set ?latest" "doc_id p = doc_id a" by auto
      from a(1) s1 have "a \<in> set ?T" by blast
      moreover from p s2 have "p \<in> set ?D" by blast
      ultimately have "doc_id p \<noteq> doc_id a" using dS by (rule ids_take_drop_disjoint [rotated])
      with a(2) show False by simp
    qed
  qed
  have out: "sample pick1 pick2 e w cid limit b = Responded 200 (Pictures (?latest @ ?rest))"
    using assms(6) le keep by (simp add: sample_unfold [OF assms(3)] Let_def)
  have subT: "set ?T \<subseteq> set ?S" by (rule set_take_subset)
  have subD: "set ?D \<subseteq> set ?S" by (rule set_drop_subset)
  have sub: "set (?latest @ ?rest) \<subseteq> set ?S"
    using s1 s2 subT subD by auto
  have disj: "set ?latest \<inter> set ?rest = {}"
  proof -
    have "set ?T \<inter> set ?D = {}"
      using dS' by (simp add: set_take_disj_set_drop_if_distinct)
    with s1 s2 show ?thesis by blast
  qed
  have dps: "distinct (?latest @ ?rest)"
    using d1 d2 disj by simp
  have dids: "distinct (map doc_id (?latest @ ?rest))"
    using dps inj_on_subset [OF inj sub] by (simp only: distinct_map)
  have len: "length (?latest @ ?rest) = min (nat b) (min latestItemsLimit ?n) + (?n - latestItemsLimit)"
    using l1 l2' lenS by simp
  have whole: "(set (?latest @ ?rest) = set ?pop) = (min latestItemsLimit ?n \<le> nat b)"
  proof
    assume "set (?latest @ ?rest) = set ?pop"
    then have "card (set (?latest @ ?rest)) = card (set ?pop)" by simp
    then have "length (?latest @ ?rest) = ?n"
      using dps dpop by (simp only: distinct_card)
    with len show "min latestItemsLimit ?n \<le> nat b" by linarith
  next
    assume "min latestItemsLimit ?n \<le> nat b"
    with len have "length (?latest @ ?rest) = length ?S" using lenS by linarith
    with dps dS' sub have "set (?latest @ ?rest) = set ?S"
      by (rule distinct_same_length_subset)
    with setS show "set (?latest @ ?rest) = set ?pop" by simp
  qed
  have order: "\<forall>ys. set ys = set ?pop \<and> length ys = ?n \<and>
                    sorted (map (\<lambda>p. - dateAdded p) ys) \<longrightarrow> ys = ?S"
    using sortByDateDesc_unique [OF assms(5)] by blast
  from out s1 l1 all dids whole order show ?thesis by blast
qed

theorem sample_small_population_witness:
  "exactSampler take \<and> \<not> queryFails env0 \<and> distinct (map doc_id (pictures world0)) \<and>
   distinct (map dateAdded (matchCategory ''c1'' (pictures world0))) \<and>
   (0::int) \<le> 2 \<and> int (length (matchCategory ''c1'' (pictures world0))) < 4 \<and>
   sample take take env0 world0 ''c1'' 4 2 = Responded 200 (Pictures [pic3, pic2]) \<and>
   distinct (map doc_id [pic3, pic2]) \<and>
   set [pic3, pic2] \<noteq> set (matchCategory ''c1'' (pictures world0))"
proof -
  have h1: "exactSampler take" by (rule exactSampler_take)
  have h3: "\<not> queryFails env0" by (simp add: env0_def)
  have h4: "distinct (map doc_id (pictures world0))"
    by (simp add: world0_def pic1_def pic2_def pic3_def pic4_def)
  have h5: "distinct (map dateAdded (matchCategory ''c1'' (pictures world0)))"
    by (simp add: matchCategory_def world0_def pic1_def pic2_def pic3_def pic4_def)
  have h6: "(0::int) \<le> 2" by simp
  have h7: "int (length (matchCategory ''c1'' (pictures world0))) < 4"
    by (simp add: matchCategory_def world0_def pic1_def pic2_def pic3_def pic4_def)
  have n: "\<not> min latestItemsLimit (length (matchCategory ''c1'' (pictures world0))) \<le> nat 2"
    by (simp add: matchCategory_def world0_def pic1_def pic2_def pic3_def pic4_def
          latestItemsLimit_def)
  have v: "sample take take env0 world0 ''c1'' 4 2 = Responded 200 (Pictures [pic3, pic2])"
    by (simp add: sample_def sampleStage_def env0_def world0_def Let_def arrayFromSet_def
        materialise_def latestItemsLimit_def matchCategory_def sortByDateDesc_def matchNotIn_def
        pic1_def pic2_def pic3_def pic4_def upt_rec)
  from sample_small_population [OF h1 h1 h3 h4 h5 h6 h7]
  obtain fresh rest where
    o: "sample take take env0 world0 ''c1'' 4 2 = Responded 200 (Pictures (fresh @ rest))"
    and d: "distinct (map doc_id (fresh @ rest))"
    and w: "(set (fresh @ rest) = set (matchCategory ''c1'' (pictures world0)))
             = (min latestItemsLimit (length (matchCategory ''c1'' (pictures world0))) \<le> nat 2)"
    by blast
  from o v have eq: "fresh @ rest = [pic3, pic2]" by simp
  from d eq have c1: "distinct (map doc_id [pic3, pic2])" by simp
  from w n eq have c2: "set [pic3, pic2] \<noteq> set (matchCategory ''c1'' (pictures world0))" by simp
  from h1 h3 h4 h5 h6 h7 v c1 c2 show ?thesis by blast
qed

section \<open>Duplicates in a batch\<close>

text \<open>
  Whenever a batch is returned it has at most \<open>limit\<close> pictures, and its ids are
  pairwise different when the stored ids are and no \<open>$sample\<close> repeats a document.
\<close>

lemma sample_size_le:
  assumes "\<forall>n xs. length (pick1 n xs) \<le> n" and "\<forall>n xs. length (pick2 n xs) \<le> n"
    and "sample pick1 pick2 e w cid limit b = Responded 200 (Pictures ps)"
  shows "int (length ps) \<le> limit"
proof (cases "queryFails e")
  case True
  with assms(3) show ?thesis by (simp add: sample_def handleError_def)
next
  case False
  let ?S = "sortByDateDesc (matchCategory cid (pictures w))"
  let ?latest = "pick1 (nat b) (take latestItemsLimit ?S)"
  let ?rest = "pick2 (nat (limit - int (length ?latest))) (drop latestItemsLimit ?S)"
  from assms(3) have ok: "\<not> (b < 0 \<or> limit < int (length ?latest))"
    and ps: "ps = ?latest @ matchNotIn (map doc_id ?latest) ?rest"
    by (auto simp: sample_unfold [OF False] Let_def handleError_def split: if_splits)
  have "length (matchNotIn (map doc_id ?latest) ?rest) \<le> length ?rest"
    by (simp add: matchNotIn_def)
  also have "\<dots> \<le> nat (limit - int (length ?latest))"
    using assms(2) by blast
  finally have bound: "length (matchNotIn (map doc_id ?latest) ?rest)
                         \<le> nat (limit - int (length ?latest))" .
  have "int (length ps)
          = int (length ?latest) + int (length (matchNotIn (map doc_id ?latest) ?rest))"
    by (subst ps) simp
  with bound ok show ?thesis by linarith
qed

lemma matchNotIn_disjoint: "set ids \<inter> set (map doc_id (matchNotIn ids docs)) = {}"
  by (auto simp: matchNotIn_def)

lemma sample_distinct_ids:
  assumes "distinct (map doc_id (pictures w))"
    and "\<forall>n xs. set (pick1 n xs) \<subseteq> set xs \<and> (distinct xs \<longrightarrow> distinct (pick1 n xs))"
    and "\<forall>n xs. set (pick2 n xs) \<subseteq> set xs \<and> (distinct xs \<longrightarrow> distinct (pick2 n xs))"
    and "sample pick1 pick2 e w cid limit b = Responded 200 (Pictures ps)"
  shows "distinct (map doc_id ps)"
proof (cases "queryFails e")
  case True
  with assms(4) show ?thesis by (simp add: sample_def handleError_def)
next
  case False
  let ?S = "sortByDateDesc (matchCategory cid (pictures w))"
  let ?latest = "pick1 (nat b) (take latestItemsLimit ?S)"
  let ?rest = "pick2 (nat (limit - int (length ?latest))) (drop latestItemsLimit ?S)"
  let ?kept = "matchNotIn (map doc_id ?latest) ?rest"
  from assms(4) have ps: "ps = ?latest @ ?kept"
    by (auto simp: sample_unfold [OF False] Let_def handleError_def split: if_splits)
  have dS: "distinct ?S" and inj: "inj_on doc_id (set ?S)"
    using distinct_ids_sorted [OF assms(1), of cid] by (simp_all add: distinct_map)
  have subL: "set ?latest \<subseteq> set ?S"
    using assms(2) set_take_subset [of latestItemsLimit ?S] by blast
  have subR: "set ?kept \<subseteq> set ?S"
    using assms(3) set_drop_subset [of latestItemsLimit ?S] by (auto simp: matchNotIn_def)
  have "distinct ?latest" using assms(2) dS by simp
  then have dL: "distinct (map doc_id ?latest)"
    using inj_on_subset [OF inj subL] by (simp add: distinct_map)
  have "distinct ?rest" using assms(3) dS by simp
  then have "distinct ?kept" by (simp add: matchNotIn_def)
  then have dR: "distinct (map doc_id ?kept)"
    using inj_on_subset [OF inj subR] by (simp add: distinct_map)
  have disj: "set (map doc_id ?latest) \<inter> set (map doc_id ?kept) = {}"
    by (rule matchNotIn_disjoint)
  show ?thesis using dL dR disj by (simp add: ps del: set_map)
qed

text \<open>
  C2. A batch should have no two pictures with the same id, the fresh set being
  deduplicated before the backfill. \<open>Array.from(new Set(latest))\<close> compares object
  references, and the objects of a query result are all different objects, so it removes
  nothing: when the first \<open>$sample\<close> answers with the same document twice, the batch
  has that picture twice.
\<close>

theorem sample_repeated_draw:
  "sample repeatFirst take env0 world0 ''c1'' 4 2 = Responded 200 (Pictures [pic3, pic3]) \<and>
   \<not> distinct (map doc_id [pic3, pic3])"
  by (simp add: sample_def sampleStage_def env0_def world0_def Let_def arrayFromSet_def
        materialise_def latestItemsLimit_def matchCategory_def sortByDateDesc_def matchNotIn_def
        pic1_def pic2_def pic3_def pic4_def upt_rec repeatFirst_def numeral_2_eq_2)

end
